theory Spec2Isabelle
  imports Main "HOL-Library.Word" "HOL-Library.Signed_Division" "HOL-Library.AList"
begin

unbundle bit_operations_syntax

section \<open>Data model of the bridge (examples/ffi.c)\<close>

text \<open>
  Pointers are addresses; address \<open>0\<close> is the null pointer. Handles of engine runtimes are
  addresses too. A context knows the runtime it was created in, which is all that
  \<open>JS_GetRuntime\<close> reads from it.
\<close>

type_synonym ptr = nat
type_synonym JSRuntime = nat
type_synonym JSClassID = "32 word"

datatype JSContext = JSContext (ctx_id: nat) (ctx_rt: JSRuntime)

text \<open>
  An engine value: the tagged union \<open>JSValue\<close>. Only the tags that the functions below
  tell apart are kept: the exception marker, object pointers (reference counted, with a
  class and an opaque pointer) and module pointers (what a compile-only module evaluation
  returns).
\<close>

datatype JSValue =
    JS_UNDEFINED
  | JS_NULL
  | JS_EXCEPTION
  | JS_INT "32 word"
  | JS_OBJECT ptr
  | JS_MODULE ptr

text \<open>The event kinds of the dispatch channel (the enumeration \<open>JSChannelType\<close> of ffi.h).\<close>

datatype JSChannelType =
    JSChannelType_METHON
  | JSChannelType_MODULE
  | JSChannelType_PROMISE_TRACK
  | JSChannelType_FREE_OBJECT

text \<open>
  The channel's third argument is a \<open>void *\<close>; what it points to depends on the kind.
  The payload datatype records what the pointer refers to at each call site: the module
  name, the rejection reason (the call passes \<open>&reason\<close>), or the opaque pointer of
  an object. The first argument is a context, except in the finalizer, which passes the
  runtime cast to a context pointer.
\<close>

datatype payload =
    P_ModuleName string
  | P_Value JSValue
  | P_Opaque ptr

datatype chan_arg = Of_ctx JSContext | Of_rt JSRuntime

text \<open>
  The host's callback. Its result is a \<open>void *\<close> as well: \<open>None\<close> is the null pointer,
  \<open>Some str\<close> a pointer to a C string, which is the only shape the module loader reads.
\<close>

type_synonym JSChannel = "chan_arg \<Rightarrow> JSChannelType \<Rightarrow> payload \<Rightarrow> string option"

text \<open>The struct \<open>RuntimeOpaque\<close>: the Runtime Context.\<close>

record RuntimeOpaque =
  channel :: JSChannel
  timeout :: "64 word"
  start :: "64 word"

text \<open>
  What the engine keeps for a class (the fields of \<open>JSClassDef\<close> that \<open>jsNewClass\<close>
  sets) and for an object (its class, its opaque pointer, its reference count and the
  runtime that owns it).
\<close>

datatype JSClassFinalizer = Fn_jsNewClass_finalizer

record JSClassDef =
  class_name :: string
  finalizer :: "JSClassFinalizer option"

record JSObject =
  obj_class_id :: JSClassID
  obj_opaque :: ptr
  obj_ref_count :: nat
  obj_rt :: JSRuntime

text \<open>Engine calls whose only effect, as far as the bridge can see, is that they were made.\<close>

datatype engine_call =
    E_UpdateStackTop JSRuntime
  | E_ThrowInternalError JSContext string
  | E_SetHostPromiseRejectionTracker JSRuntime ptr
  | E_SetModuleLoaderFunc JSRuntime ptr
  | E_SetInterruptHandler JSRuntime ptr

type_synonym dispatch = "chan_arg \<times> JSChannelType \<times> payload"

text \<open>
  The state the bridge works on. \<open>boxes\<close> and \<open>runtime_ctxs\<close> are the two kinds of cells
  the bridge itself allocates with \<open>malloc\<close>; the remaining fields belong to the engine:
  the user pointer of each runtime, the engine-wide class identifier allocator
  (\<open>js_class_id_alloc\<close> of quickjs.c), the class table of each runtime, and the live
  objects. \<open>dispatched\<close> lists the calls of the dispatch channel in order.
\<close>

record state =
  boxes :: "ptr \<rightharpoonup> JSValue"
  runtime_ctxs :: "ptr \<rightharpoonup> RuntimeOpaque"
  next_ptr :: ptr
  rt_user_opaque :: "JSRuntime \<Rightarrow> ptr"
  js_class_id_alloc :: JSClassID
  class_array :: "JSRuntime \<Rightarrow> JSClassID \<rightharpoonup> JSClassDef"
  objects :: "(ptr \<times> JSObject) list"
  dispatched :: "dispatch list"
  engine_log :: "engine_call list"

text \<open>
  Undefined behaviour of the C code is a value: reading through a null pointer, reading
  through a pointer to a cell that is not allocated, freeing such a cell, and a signed
  arithmetic operation whose result does not fit its type.
\<close>

datatype fault = NullDeref | InvalidDeref | InvalidFree | SignedOverflow

section \<open>Allocation of boxes and Runtime Contexts\<close>

text \<open>
  \<open>malloc\<close> hands out an address that is not null and was never handed out before;
  the bridge does not test its result, and the model takes the allocation to succeed.
  \<open>free\<close> accepts the null pointer and otherwise needs an allocated cell.
\<close>

definition CPP_NEW_JSVALUE :: "JSValue \<Rightarrow> state \<Rightarrow> ptr \<times> state" where
  "CPP_NEW_JSVALUE val s =
     (let p = Suc (next_ptr s)
      in (p, s\<lparr>boxes := (boxes s)(p \<mapsto> val), next_ptr := p\<rparr>))"

definition CPP_DELETE_JSVALUE :: "ptr \<Rightarrow> state \<Rightarrow> fault + state" where
  "CPP_DELETE_JSVALUE valRef s =
     (if valRef = 0 then Inr s
      else case boxes s valRef of
             None \<Rightarrow> Inl InvalidFree
           | Some v \<Rightarrow> Inr (s\<lparr>boxes := (boxes s)(valRef := None)\<rparr>))"

definition CPP_NEW_RT :: "JSChannel \<Rightarrow> 64 word \<Rightarrow> 64 word \<Rightarrow> state \<Rightarrow> ptr \<times> state" where
  "CPP_NEW_RT ch tmo st s =
     (let rt = \<lparr>channel = ch, timeout = tmo, start = st\<rparr>;
          p = Suc (next_ptr s)
      in (p, s\<lparr>runtime_ctxs := (runtime_ctxs s)(p \<mapsto> rt), next_ptr := p\<rparr>))"

definition CPP_DELETE_RT :: "ptr \<Rightarrow> state \<Rightarrow> fault + state" where
  "CPP_DELETE_RT rtRef s =
     (if rtRef = 0 then Inr s
      else case runtime_ctxs s rtRef of
             None \<Rightarrow> Inl InvalidFree
           | Some r \<Rightarrow> Inr (s\<lparr>runtime_ctxs := (runtime_ctxs s)(rtRef := None)\<rparr>))"

text \<open>Reading \<open>*v\<close> for a box pointer and \<open>*opaque\<close> for a Runtime Context pointer.\<close>

definition read_box :: "state \<Rightarrow> ptr \<Rightarrow> fault + JSValue" where
  "read_box s v =
     (if v = 0 then Inl NullDeref
      else case boxes s v of None \<Rightarrow> Inl InvalidDeref | Some val \<Rightarrow> Inr val)"

definition read_rt :: "state \<Rightarrow> ptr \<Rightarrow> fault + RuntimeOpaque" where
  "read_rt s opaque =
     (if opaque = 0 then Inl NullDeref
      else case runtime_ctxs s opaque of None \<Rightarrow> Inl InvalidDeref | Some r \<Rightarrow> Inr r)"

section \<open>The engine's accessors\<close>

text \<open>
  The engine is a separate library; the bridge sees it through its C interface. The
  functions of this section are the parts of that interface whose behaviour is a plain
  read or write of engine state. Functions that run scripts or allocate engine objects
  are parameters of the bridge functions that call them.
\<close>

definition JS_GetRuntime :: "JSContext \<Rightarrow> JSRuntime" where
  "JS_GetRuntime ctx = ctx_rt ctx"

definition JS_GetRuntimeOpaque :: "JSRuntime \<Rightarrow> state \<Rightarrow> ptr" where
  "JS_GetRuntimeOpaque rt s = rt_user_opaque s rt"

definition JS_SetRuntimeOpaque :: "JSRuntime \<Rightarrow> ptr \<Rightarrow> state \<Rightarrow> state" where
  "JS_SetRuntimeOpaque rt p s = s\<lparr>rt_user_opaque := (rt_user_opaque s)(rt := p)\<rparr>"

definition JS_IsException :: "JSValue \<Rightarrow> bool" where
  "JS_IsException v = (v = JS_EXCEPTION)"

definition JS_UpdateStackTop :: "JSRuntime \<Rightarrow> state \<Rightarrow> state" where
  "JS_UpdateStackTop rt s = s\<lparr>engine_log := engine_log s @ [E_UpdateStackTop rt]\<rparr>"

definition JS_ThrowInternalError :: "JSContext \<Rightarrow> string \<Rightarrow> state \<Rightarrow> state" where
  "JS_ThrowInternalError ctx msg s =
     s\<lparr>engine_log := engine_log s @ [E_ThrowInternalError ctx msg]\<rparr>"

text \<open>
  \<open>JS_VALUE_GET_PTR\<close> reads the pointer member of the value's union. For a value that
  is not a pointer it reads the bits of the integer member.
\<close>

fun JS_VALUE_GET_PTR :: "JSValue \<Rightarrow> ptr" where
  "JS_VALUE_GET_PTR (JS_OBJECT p) = p"
| "JS_VALUE_GET_PTR (JS_MODULE p) = p"
| "JS_VALUE_GET_PTR (JS_INT i) = unat i"
| "JS_VALUE_GET_PTR v = 0"

text \<open>
  Objects. \<open>JS_GetClassID\<close> and \<open>JS_GetOpaque\<close> answer 0 or null for a value that is not
  an object, \<open>JS_GetOpaque\<close> also for an object of another class; \<open>JS_SetOpaque\<close> does
  nothing for a value that is not an object. Reading an object that is no longer live is
  undefined behaviour.
\<close>

definition read_obj :: "state \<Rightarrow> ptr \<Rightarrow> fault + JSObject" where
  "read_obj s p =
     (if p = 0 then Inl NullDeref
      else case map_of (objects s) p of None \<Rightarrow> Inl InvalidDeref | Some ob \<Rightarrow> Inr ob)"

definition JS_GetClassID :: "JSValue \<Rightarrow> state \<Rightarrow> fault + JSClassID" where
  "JS_GetClassID v s =
     (case v of
        JS_OBJECT p \<Rightarrow>
          (case read_obj s p of Inl f \<Rightarrow> Inl f | Inr ob \<Rightarrow> Inr (obj_class_id ob))
      | _ \<Rightarrow> Inr 0)"

definition JS_GetOpaque :: "JSValue \<Rightarrow> JSClassID \<Rightarrow> state \<Rightarrow> fault + ptr" where
  "JS_GetOpaque v class_id s =
     (case v of
        JS_OBJECT p \<Rightarrow>
          (case read_obj s p of
             Inl f \<Rightarrow> Inl f
           | Inr ob \<Rightarrow> if obj_class_id ob \<noteq> class_id then Inr 0 else Inr (obj_opaque ob))
      | _ \<Rightarrow> Inr 0)"

definition JS_SetOpaque :: "JSValue \<Rightarrow> ptr \<Rightarrow> state \<Rightarrow> fault + state" where
  "JS_SetOpaque v opaque s =
     (case v of
        JS_OBJECT p \<Rightarrow>
          (case read_obj s p of
             Inl f \<Rightarrow> Inl f
           | Inr ob \<Rightarrow>
               Inr (s\<lparr>objects := AList.update p (ob\<lparr>obj_opaque := opaque\<rparr>) (objects s)\<rparr>))
      | _ \<Rightarrow> Inr s)"

section \<open>The dispatch channel and the callbacks registered with the engine\<close>

text \<open>
  The expression \<open>((RuntimeOpaque *)opaque)->channel(c, kind, data)\<close>: read the Runtime
  Context, call the host's callback, and note the call. What the host does inside its
  callback is outside the bridge: the callback is a function of its arguments and leaves
  the state of the bridge as it is.
\<close>

definition invoke_channel ::
  "ptr \<Rightarrow> chan_arg \<Rightarrow> JSChannelType \<Rightarrow> payload \<Rightarrow> state \<Rightarrow> fault + (string option \<times> state)" where
  "invoke_channel opaque c kind data s =
     (case read_rt s opaque of
        Inl f \<Rightarrow> Inl f
      | Inr r \<Rightarrow> Inr (channel r c kind data, s\<lparr>dispatched := dispatched s @ [(c, kind, data)]\<rparr>))"

definition js_promise_rejection_tracker ::
  "JSContext \<Rightarrow> JSValue \<Rightarrow> JSValue \<Rightarrow> 32 word \<Rightarrow> ptr \<Rightarrow> state \<Rightarrow> fault + state" where
  "js_promise_rejection_tracker ctx promise reason is_handled opaque s =
     (if is_handled \<noteq> 0 then Inr s
      else case invoke_channel opaque (Of_ctx ctx) JSChannelType_PROMISE_TRACK (P_Value reason) s of
             Inl f \<Rightarrow> Inl f
           | Inr (r, s') \<Rightarrow> Inr s')"

text \<open>
  The interrupt handler. \<open>clock()\<close> and \<open>CLOCKS_PER_SEC\<close> come from the platform and are
  parameters (\<open>now\<close>, \<open>cps\<close>); \<open>clock_t\<close> is taken to be a signed integer of at most
  64 bits, so that the arithmetic is the C one on \<open>int64_t\<close>. The difference and the
  product are computed on the integers the operands stand for; C leaves a signed
  operation undefined when its result is outside the type, and the model returns the
  fault \<open>SignedOverflow\<close> there. The division truncates towards zero. The operator
  \<open>&&\<close> evaluates its right operand only when the left one holds, so the arithmetic
  is only done, and \<open>clock()\<close> only called, when timeout and call-start are both set.
\<close>

definition int64_range :: "int \<Rightarrow> bool" where
  "int64_range k = (- (2 ^ 63) \<le> k \<and> k < 2 ^ 63)"

definition js_interrupt_handler ::
  "64 word \<Rightarrow> 64 word \<Rightarrow> JSRuntime \<Rightarrow> ptr \<Rightarrow> state \<Rightarrow> fault + (int \<times> state)" where
  "js_interrupt_handler cps now rt opaque s =
     (case read_rt s opaque of
        Inl f \<Rightarrow> Inl f
      | Inr op \<Rightarrow>
          if timeout op \<noteq> 0 \<and> start op \<noteq> 0
          then (let elapsed = sint now - sint (start op);
                    budget = sint (timeout op) * sint cps
                in if int64_range elapsed \<and> int64_range budget
                   then (if elapsed > budget sdiv 1000
                         then Inr (1, s\<lparr>runtime_ctxs :=
                                          (runtime_ctxs s)(opaque \<mapsto> op\<lparr>start := 0\<rparr>)\<rparr>)
                         else Inr (0, s))
                   else Inl SignedOverflow)
          else Inr (0, s))"


definition jsNewClass_finalizer :: "JSRuntime \<Rightarrow> JSValue \<Rightarrow> state \<Rightarrow> fault + state" where
  "jsNewClass_finalizer rt obj s =
     (case JS_GetClassID obj s of
        Inl f \<Rightarrow> Inl f
      | Inr classid \<Rightarrow>
         (case JS_GetOpaque obj classid s of
            Inl f \<Rightarrow> Inl f
          | Inr opaque \<Rightarrow>
             (let runtimeOpaque = JS_GetRuntimeOpaque rt s
              in if runtimeOpaque = 0 then Inr s
                 else case invoke_channel runtimeOpaque (Of_rt rt) JSChannelType_FREE_OBJECT
                             (P_Opaque opaque) s of
                        Inl f \<Rightarrow> Inl f
                      | Inr (r, s') \<Rightarrow> Inr s')))"

section \<open>Reference counts, collection of objects and teardown in the engine\<close>

text \<open>
  When an object is freed the engine calls the finalizer of the object's class, if the
  class has one, with the object still readable, and then releases the object
  (\<open>free_object\<close> of quickjs.c). The only finalizer the bridge ever registers is
  \<open>jsNewClass_finalizer\<close>.
\<close>

definition free_object :: "JSRuntime \<Rightarrow> ptr \<Rightarrow> state \<Rightarrow> fault + state" where
  "free_object rt p s =
     (case read_obj s p of
        Inl f \<Rightarrow> Inl f
      | Inr ob \<Rightarrow>
         (case (case class_array s rt (obj_class_id ob) of
                  None \<Rightarrow> Inr s
                | Some def \<Rightarrow>
                    (case finalizer def of
                       None \<Rightarrow> Inr s
                     | Some Fn_jsNewClass_finalizer \<Rightarrow> jsNewClass_finalizer rt (JS_OBJECT p) s)) of
            Inl f \<Rightarrow> Inl f
          | Inr s' \<Rightarrow> Inr (s'\<lparr>objects := AList.delete p (objects s')\<rparr>)))"

text \<open>
  \<open>JS_FreeValueRT\<close> gives up one reference: the count of an object goes down by one and
  the object is freed when no reference is left. Values of the other tags carry no
  state that the model follows.
\<close>

definition JS_FreeValueRT :: "JSRuntime \<Rightarrow> JSValue \<Rightarrow> state \<Rightarrow> fault + state" where
  "JS_FreeValueRT rt v s =
     (case v of
        JS_OBJECT p \<Rightarrow>
          (case read_obj s p of
             Inl f \<Rightarrow> Inl f
           | Inr ob \<Rightarrow>
               if obj_ref_count ob \<le> 1 then free_object rt p s
               else Inr (s\<lparr>objects :=
                      AList.update p (ob\<lparr>obj_ref_count := obj_ref_count ob - 1\<rparr>) (objects s)\<rparr>))
      | _ \<Rightarrow> Inr s)"

definition JS_FreeValue :: "JSContext \<Rightarrow> JSValue \<Rightarrow> state \<Rightarrow> fault + state" where
  "JS_FreeValue ctx v s = JS_FreeValueRT (JS_GetRuntime ctx) v s"

text \<open>
  \<open>JS_FreeRuntime\<close> frees every object the runtime still owns, each through
  \<open>free_object\<close>, and drops the runtime's class table. (The engine expects the host to
  have given up its own references by then; what is left is held by the engine itself.)
\<close>

fun free_objects :: "JSRuntime \<Rightarrow> ptr list \<Rightarrow> state \<Rightarrow> fault + state" where
  "free_objects rt [] s = Inr s"
| "free_objects rt (p # ps) s =
     (case free_object rt p s of Inl f \<Rightarrow> Inl f | Inr s' \<Rightarrow> free_objects rt ps s')"

definition owned_objects :: "JSRuntime \<Rightarrow> state \<Rightarrow> ptr list" where
  "owned_objects rt s = map fst (filter (\<lambda>e. obj_rt (snd e) = rt) (objects s))"

definition JS_FreeRuntime :: "JSRuntime \<Rightarrow> state \<Rightarrow> fault + state" where
  "JS_FreeRuntime rt s =
     (case free_objects rt (owned_objects rt s) s of
        Inl f \<Rightarrow> Inl f
      | Inr s' \<Rightarrow> Inr (s'\<lparr>class_array := (class_array s')(rt := Map.empty)\<rparr>))"

section \<open>Runtime lifecycle\<close>

text \<open>
  \<open>JS_NewRuntime\<close> returns a fresh runtime whose user pointer is null and whose class
  table holds no class of the bridge. Registering one of the three hooks stores the
  function and the pointer the engine will pass to it as \<open>opaque\<close>; the model notes the
  registration with that pointer.
\<close>

definition JS_NewRuntime :: "state \<Rightarrow> JSRuntime \<times> state" where
  "JS_NewRuntime s =
     (let rt = Suc (next_ptr s)
      in (rt, s\<lparr>next_ptr := rt,
               rt_user_opaque := (rt_user_opaque s)(rt := 0),
               class_array := (class_array s)(rt := Map.empty)\<rparr>))"

definition JS_SetHostPromiseRejectionTracker :: "JSRuntime \<Rightarrow> ptr \<Rightarrow> state \<Rightarrow> state" where
  "JS_SetHostPromiseRejectionTracker rt opaque s =
     s\<lparr>engine_log := engine_log s @ [E_SetHostPromiseRejectionTracker rt opaque]\<rparr>"

definition JS_SetModuleLoaderFunc :: "JSRuntime \<Rightarrow> ptr \<Rightarrow> state \<Rightarrow> state" where
  "JS_SetModuleLoaderFunc rt opaque s =
     s\<lparr>engine_log := engine_log s @ [E_SetModuleLoaderFunc rt opaque]\<rparr>"

definition JS_SetInterruptHandler :: "JSRuntime \<Rightarrow> ptr \<Rightarrow> state \<Rightarrow> state" where
  "JS_SetInterruptHandler rt opaque s =
     s\<lparr>engine_log := engine_log s @ [E_SetInterruptHandler rt opaque]\<rparr>"

definition jsNewRuntime :: "JSChannel \<Rightarrow> 64 word \<Rightarrow> state \<Rightarrow> JSRuntime \<times> state" where
  "jsNewRuntime ch tmo s =
     (let (rt, s1) = JS_NewRuntime s;
          (opaque, s2) = CPP_NEW_RT ch tmo 0 s1;
          s3 = JS_SetRuntimeOpaque rt opaque s2;
          s4 = JS_SetHostPromiseRejectionTracker rt opaque s3;
          s5 = JS_SetModuleLoaderFunc rt opaque s4;
          s6 = JS_SetInterruptHandler rt opaque s5
      in (rt, s6))"

definition jsFreeRuntime :: "JSRuntime \<Rightarrow> state \<Rightarrow> fault + state" where
  "jsFreeRuntime rt s =
     (let opauqe = JS_GetRuntimeOpaque rt s
      in case (if opauqe \<noteq> 0 then CPP_DELETE_RT opauqe s else Inr s) of
           Inl f \<Rightarrow> Inl f
         | Inr s1 \<Rightarrow> JS_FreeRuntime rt (JS_SetRuntimeOpaque rt 0 s1))"

section \<open>Classes and opaque data\<close>

text \<open>
  \<open>JS_NewClassID(&id)\<close> of the engine: when the slot holds 0 it takes the next
  identifier from the engine-wide allocator and stores it in the slot; otherwise it
  leaves the slot as it is. The result is the content of the slot after the call.
  \<open>JS_IsRegisteredClass\<close> says whether the runtime's class table has an entry.
\<close>

definition JS_NewClassID :: "JSClassID \<Rightarrow> state \<Rightarrow> JSClassID \<times> state" where
  "JS_NewClassID slot s =
     (if slot = 0
      then (js_class_id_alloc s, s\<lparr>js_class_id_alloc := js_class_id_alloc s + 1\<rparr>)
      else (slot, s))"

definition JS_IsRegisteredClass :: "JSRuntime \<Rightarrow> JSClassID \<Rightarrow> state \<Rightarrow> bool" where
  "JS_IsRegisteredClass rt class_id s = (class_array s rt class_id \<noteq> None)"

text \<open>
  \<open>jsNewClass\<close>. The engine's \<open>JS_NewClass\<close> is the parameter \<open>new_class\<close>: it returns
  an \<open>int\<close>, negative on failure, and the engine state after the call. The identifier
  slot \<open>QJSClassId\<close> is a local variable of the function, set to 0 at every call.
\<close>

definition jsNewClass ::
  "(JSRuntime \<Rightarrow> JSClassID \<Rightarrow> JSClassDef \<Rightarrow> state \<Rightarrow> int \<times> state)
   \<Rightarrow> JSContext \<Rightarrow> string \<Rightarrow> state \<Rightarrow> JSClassID \<times> state" where
  "jsNewClass new_class ctx name s =
     (let (QJSClassId, s1) = JS_NewClassID 0 s;
          rt = JS_GetRuntime ctx
      in if \<not> JS_IsRegisteredClass rt QJSClassId s1
         then (let def = \<lparr>class_name = name, finalizer = Some Fn_jsNewClass_finalizer\<rparr>;
                   (e, s2) = new_class rt QJSClassId def s1
               in if e < 0
                  then (0, JS_ThrowInternalError ctx (''Cant register class '' @ name) s2)
                  else (QJSClassId, s2))
         else (QJSClassId, s1))"

text \<open>
  The engine's \<open>JS_NewClass\<close> as quickjs.c has it, leaving memory exhaustion aside: it
  refuses an identifier of \<open>2^16\<close> or more and an identifier the runtime has already
  registered, and enters the class into the runtime's table otherwise.
\<close>

definition JS_NewClass :: "JSRuntime \<Rightarrow> JSClassID \<Rightarrow> JSClassDef \<Rightarrow> state \<Rightarrow> int \<times> state" where
  "JS_NewClass rt class_id def s =
     (if class_id \<ge> 65536 then (- 1, s)
      else if class_array s rt class_id \<noteq> None then (- 1, s)
      else (0, s\<lparr>class_array := (class_array s)(rt := (class_array s rt)(class_id \<mapsto> def))\<rparr>))"

text \<open>
  \<open>jsNewObjectClass\<close>. The engine's \<open>JS_NewObjectClass\<close> is the parameter
  \<open>new_object\<close>: it returns the new object or the exception marker.
\<close>

definition jsNewObjectClass ::
  "(JSContext \<Rightarrow> JSClassID \<Rightarrow> state \<Rightarrow> JSValue \<times> state)
   \<Rightarrow> JSContext \<Rightarrow> JSClassID \<Rightarrow> ptr \<Rightarrow> state \<Rightarrow> fault + (ptr \<times> state)" where
  "jsNewObjectClass new_object ctx QJSClassId opaque s =
     (let (v, s1) = new_object ctx QJSClassId s;
          (jsobj, s2) = CPP_NEW_JSVALUE v s1
      in case read_box s2 jsobj of
           Inl f \<Rightarrow> Inl f
         | Inr val \<Rightarrow>
             if JS_IsException val then Inr (jsobj, s2)
             else (case JS_SetOpaque val opaque s2 of
                     Inl f \<Rightarrow> Inl f
                   | Inr s3 \<Rightarrow> Inr (jsobj, s3)))"

definition jsGetObjectOpaque :: "ptr \<Rightarrow> JSClassID \<Rightarrow> state \<Rightarrow> fault + ptr" where
  "jsGetObjectOpaque obj classid s =
     (case read_box s obj of Inl f \<Rightarrow> Inl f | Inr val \<Rightarrow> JS_GetOpaque val classid s)"

text \<open>
  Two behaviours of the engine's \<open>JS_NewObjectClass\<close>: a fresh object of the class with
  one reference and no opaque data, owned by the context's runtime; and the exception
  marker, which the engine returns when it cannot allocate.
\<close>

definition JS_NewObjectClass :: "JSContext \<Rightarrow> JSClassID \<Rightarrow> state \<Rightarrow> JSValue \<times> state" where
  "JS_NewObjectClass ctx class_id s =
     (let p = Suc (next_ptr s);
          ob = \<lparr>obj_class_id = class_id, obj_opaque = 0, obj_ref_count = 1,
                obj_rt = JS_GetRuntime ctx\<rparr>
      in (JS_OBJECT p, s\<lparr>next_ptr := p, objects := AList.update p ob (objects s)\<rparr>))"

definition JS_NewObjectClass_nomem :: "JSContext \<Rightarrow> JSClassID \<Rightarrow> state \<Rightarrow> JSValue \<times> state" where
  "JS_NewObjectClass_nomem ctx class_id s = (JS_EXCEPTION, s)"

section \<open>Freeing values\<close>

definition jsFreeValue :: "JSContext \<Rightarrow> ptr \<Rightarrow> 32 word \<Rightarrow> state \<Rightarrow> fault + state" where
  "jsFreeValue ctx v free s =
     (case read_box s v of
        Inl f \<Rightarrow> Inl f
      | Inr val \<Rightarrow>
         (case JS_FreeValue ctx val s of
            Inl f \<Rightarrow> Inl f
          | Inr s1 \<Rightarrow> if free \<noteq> 0 then CPP_DELETE_JSVALUE v s1 else Inr s1))"

definition jsFreeValueRT :: "JSRuntime \<Rightarrow> ptr \<Rightarrow> 32 word \<Rightarrow> state \<Rightarrow> fault + state" where
  "jsFreeValueRT rt v free s =
     (case read_box s v of
        Inl f \<Rightarrow> Inl f
      | Inr val \<Rightarrow>
         (case JS_FreeValueRT rt val s of
            Inl f \<Rightarrow> Inl f
          | Inr s1 \<Rightarrow> if free \<noteq> 0 then CPP_DELETE_JSVALUE v s1 else Inr s1))"

section \<open>Entering the engine\<close>

definition js_begin_call :: "64 word \<Rightarrow> JSRuntime \<Rightarrow> state \<Rightarrow> fault + state" where
  "js_begin_call now rt s =
     (let s1 = JS_UpdateStackTop rt s;
          opaque = JS_GetRuntimeOpaque rt s1
      in if opaque \<noteq> 0
         then (case read_rt s1 opaque of
                 Inl f \<Rightarrow> Inl f
               | Inr r \<Rightarrow> Inr (s1\<lparr>runtime_ctxs := (runtime_ctxs s1)(opaque \<mapsto> r\<lparr>start := now\<rparr>)\<rparr>))
         else Inr s1)"

text \<open>
  The engine operations that run scripts are parameters: \<open>js_eval\<close> for \<open>JS_Eval\<close>,
  \<open>js_call\<close> for \<open>JS_Call\<close> and \<open>js_exec\<close> for \<open>JS_ExecutePendingJob\<close>. Each takes
  the state in which it is entered and returns its result with the state it leaves.
  \<open>now\<close> is what \<open>clock()\<close> returns inside \<open>js_begin_call\<close>.
\<close>

type_synonym engine_eval =
  "JSContext \<Rightarrow> string \<Rightarrow> nat \<Rightarrow> string \<Rightarrow> 32 word \<Rightarrow> state \<Rightarrow> JSValue \<times> state"

type_synonym engine_call_fn =
  "JSContext \<Rightarrow> JSValue \<Rightarrow> JSValue \<Rightarrow> 32 word \<Rightarrow> JSValue list \<Rightarrow> state \<Rightarrow> JSValue \<times> state"

type_synonym engine_exec = "JSRuntime \<Rightarrow> state \<Rightarrow> int \<times> state"

definition jsEval ::
  "engine_eval \<Rightarrow> 64 word \<Rightarrow> JSContext \<Rightarrow> string \<Rightarrow> nat \<Rightarrow> string \<Rightarrow> 32 word \<Rightarrow> state
   \<Rightarrow> fault + (ptr \<times> state)" where
  "jsEval js_eval now ctx input input_len filename eval_flags s =
     (let rt = JS_GetRuntime ctx
      in case js_begin_call now rt s of
           Inl f \<Rightarrow> Inl f
         | Inr s1 \<Rightarrow>
             (let (v, s2) = js_eval ctx input input_len filename eval_flags s1
              in Inr (CPP_NEW_JSVALUE v s2)))"

definition jsCall ::
  "engine_call_fn \<Rightarrow> 64 word \<Rightarrow> JSContext \<Rightarrow> ptr \<Rightarrow> ptr \<Rightarrow> 32 word \<Rightarrow> JSValue list \<Rightarrow> state
   \<Rightarrow> fault + (ptr \<times> state)" where
  "jsCall js_call now ctx func_obj this_obj argc argv s =
     (let rt = JS_GetRuntime ctx
      in case js_begin_call now rt s of
           Inl f \<Rightarrow> Inl f
         | Inr s1 \<Rightarrow>
            (case read_box s1 func_obj of
               Inl f \<Rightarrow> Inl f
             | Inr fv \<Rightarrow>
                (case read_box s1 this_obj of
                   Inl f \<Rightarrow> Inl f
                 | Inr tv \<Rightarrow>
                     (let (v, s2) = js_call ctx fv tv argc argv s1
                      in Inr (CPP_NEW_JSVALUE v s2)))))"

definition jsExecutePendingJob ::
  "engine_exec \<Rightarrow> 64 word \<Rightarrow> JSRuntime \<Rightarrow> state \<Rightarrow> fault + (int \<times> state)" where
  "jsExecutePendingJob js_exec now rt s =
     (case js_begin_call now rt s of
        Inl f \<Rightarrow> Inl f
      | Inr s1 \<Rightarrow> Inr (js_exec rt s1))"

section \<open>The module loader\<close>

definition JS_EVAL_TYPE_MODULE :: "32 word" where
  "JS_EVAL_TYPE_MODULE = 1"

definition JS_EVAL_FLAG_COMPILE_ONLY :: "32 word" where
  "JS_EVAL_FLAG_COMPILE_ONLY = 32"

text \<open>
  The result is the \<open>JSModuleDef *\<close>: 0 is \<open>NULL\<close>, the engine's sign that the module
  could not be resolved.
\<close>

definition my_js_module_loader ::
  "engine_eval \<Rightarrow> JSContext \<Rightarrow> string \<Rightarrow> ptr \<Rightarrow> state \<Rightarrow> fault + (ptr \<times> state)" where
  "my_js_module_loader js_eval ctx module_name opaque s =
     (case invoke_channel opaque (Of_ctx ctx) JSChannelType_MODULE (P_ModuleName module_name) s of
        Inl f \<Rightarrow> Inl f
      | Inr (str, s1) \<Rightarrow>
         (case str of
            None \<Rightarrow> Inr (0, s1)
          | Some src \<Rightarrow>
             (let (func_val, s2) =
                    js_eval ctx src (length src) module_name
                      (JS_EVAL_TYPE_MODULE OR JS_EVAL_FLAG_COMPILE_ONLY) s1
              in if JS_IsException func_val then Inr (0, s2)
                 else (let m = JS_VALUE_GET_PTR func_val
                       in case JS_FreeValue ctx func_val s2 of
                            Inl f \<Rightarrow> Inl f
                          | Inr s3 \<Rightarrow> Inr (m, s3)))))"

section \<open>Evaluating an import\<close>

definition jsIsException :: "ptr \<Rightarrow> state \<Rightarrow> fault + int" where
  "jsIsException val s =
     (case read_box s val of
        Inl f \<Rightarrow> Inl f
      | Inr v \<Rightarrow> Inr (if JS_IsException v then 1 else 0))"

text \<open>
  \<open>jsEval\<close> once more, for an engine evaluator that calls back into the bridge and can
  therefore end in a fault of the bridge's own code. With an evaluator that never
  faults it is \<open>jsEval\<close>.
\<close>

type_synonym engine_eval_fallible =
  "JSContext \<Rightarrow> string \<Rightarrow> nat \<Rightarrow> string \<Rightarrow> 32 word \<Rightarrow> state \<Rightarrow> fault + (JSValue \<times> state)"

definition jsEval_fallible ::
  "engine_eval_fallible \<Rightarrow> 64 word \<Rightarrow> JSContext \<Rightarrow> string \<Rightarrow> nat \<Rightarrow> string \<Rightarrow> 32 word \<Rightarrow> state
   \<Rightarrow> fault + (ptr \<times> state)" where
  "jsEval_fallible js_eval now ctx input input_len filename eval_flags s =
     (let rt = JS_GetRuntime ctx
      in case js_begin_call now rt s of
           Inl f \<Rightarrow> Inl f
         | Inr s1 \<Rightarrow>
             (case js_eval ctx input input_len filename eval_flags s1 of
                Inl f \<Rightarrow> Inl f
              | Inr (v, s2) \<Rightarrow> Inr (CPP_NEW_JSVALUE v s2)))"

text \<open>
  The pointer that the latest \<open>JS_SetModuleLoaderFunc\<close> registered for a runtime: the
  engine passes it to the module loader as \<open>opaque\<close>.
\<close>

fun find_loader :: "JSRuntime \<Rightarrow> engine_call list \<Rightarrow> ptr option" where
  "find_loader rt [] = None"
| "find_loader rt (E_SetModuleLoaderFunc r p # cs) =
     (if r = rt then Some p else find_loader rt cs)"
| "find_loader rt (c # cs) = find_loader rt cs"

definition module_loader_opaque :: "JSRuntime \<Rightarrow> state \<Rightarrow> ptr option" where
  "module_loader_opaque rt s = find_loader rt (rev (engine_log s))"

text \<open>
  Modelled from the spec: the engine's import resolution inside \<open>JS_Eval\<close>, which is
  code of the engine and not in the source file. The specification says that the engine
  asks the dispatch channel, through the module loader the bridge configured, for the
  source text of a named module during import resolution; that a not-found answer makes
  the engine's resolution fail; and that a call that fails returns a value that tests
  true for "is exception". So: evaluating a source text that imports \<open>module_name\<close>
  calls the registered module loader with the registered pointer; when the loader
  returns the null module definition, or no loader is registered, the result of the
  evaluation is the exception marker; otherwise the evaluation goes on in the engine
  (the parameter \<open>js_eval\<close>). A fault inside the loader is a fault of the evaluation.
\<close>

definition JS_Eval_import :: "engine_eval \<Rightarrow> string \<Rightarrow> engine_eval_fallible" where
  "JS_Eval_import js_eval module_name ctx input input_len filename eval_flags s =
     (case module_loader_opaque (JS_GetRuntime ctx) s of
        None \<Rightarrow> Inr (JS_EXCEPTION, s)
      | Some opaque \<Rightarrow>
         (case my_js_module_loader js_eval ctx module_name opaque s of
            Inl f \<Rightarrow> Inl f
          | Inr (m, s1) \<Rightarrow>
              if m = 0 then Inr (JS_EXCEPTION, s1)
              else Inr (js_eval ctx input input_len filename eval_flags s1)))"

text \<open>The source text that imports one module: the word import and the name in quotes.\<close>

definition import_source :: "string \<Rightarrow> string" where
  "import_source module_name = ''import '' @ [CHR 0x22] @ module_name @ [CHR 0x22]"

section \<open>Well-formed object tables\<close>

text \<open>
  The engine's table of live objects has one entry for an address, and no object lives at
  the null address.
\<close>

definition wf_objects :: "state \<Rightarrow> bool" where
  "wf_objects s = (distinct (map fst (objects s)) \<and> 0 \<notin> set (map fst (objects s)))"

section \<open>An example host, example engine operations and example states\<close>

text \<open>
  A host callback that knows every module but \<open>missing\<close>; a state in which nothing has
  been created yet; and the states reached from it by creating a runtime with a timeout
  of 50 ms (\<open>example_s1\<close>), registering a class (\<open>example_s2\<close>), creating an object of
  that class with the opaque pointer 4242 (\<open>example_s3\<close>) and entering a call at clock
  value 1000 (\<open>example_s4\<close>). \<open>example_full\<close> is a state whose identifier allocator has
  reached \<open>2^16\<close>. The three example engine operations stand for \<open>JS_Eval\<close>,
  \<open>JS_Call\<close> and \<open>JS_ExecutePendingJob\<close>; the last reports whether it found the
  call-start stamp set when it was entered.
\<close>

definition example_channel :: JSChannel where
  "example_channel c kind data =
     (if kind = JSChannelType_MODULE \<and> data \<noteq> P_ModuleName ''missing''
      then Some ''export default 1;'' else None)"

definition boot_state :: state where
  "boot_state =
     \<lparr>boxes = Map.empty, runtime_ctxs = Map.empty, next_ptr = 9,
      rt_user_opaque = (\<lambda>rt. 0), js_class_id_alloc = 64,
      class_array = (\<lambda>rt. Map.empty), objects = [], dispatched = [], engine_log = []\<rparr>"

definition example_ctx :: JSContext where
  "example_ctx = JSContext 7 10"

definition example_s1 :: state where
  "example_s1 = snd (jsNewRuntime example_channel 50 boot_state)"

definition example_s2 :: state where
  "example_s2 = snd (jsNewClass JS_NewClass example_ctx ''JSObject'' example_s1)"

definition example_s3 :: state where
  "example_s3 = snd (projr (jsNewObjectClass JS_NewObjectClass example_ctx 64 4242 example_s2))"

definition example_s4 :: state where
  "example_s4 = projr (js_begin_call 1000 10 example_s3)"

definition example_rc :: RuntimeOpaque where
  "example_rc = \<lparr>channel = example_channel, timeout = 50, start = 0\<rparr>"

definition example_obj :: JSObject where
  "example_obj = \<lparr>obj_class_id = 64, obj_opaque = 4242, obj_ref_count = 1, obj_rt = 10\<rparr>"

definition example_def :: JSClassDef where
  "example_def = \<lparr>class_name = ''JSObject'', finalizer = Some Fn_jsNewClass_finalizer\<rparr>"

definition example_eval :: engine_eval where
  "example_eval ctx input input_len filename eval_flags s = (JS_INT 2, s)"

definition example_call :: engine_call_fn where
  "example_call ctx fv tv argc argv s = (JS_UNDEFINED, s)"

definition example_exec :: engine_exec where
  "example_exec rt s =
     (case runtime_ctxs s (rt_user_opaque s rt) of
        None \<Rightarrow> (- 1, s)
      | Some r \<Rightarrow> if start r = 0 then (0, s) else (1, s))"

definition example_full :: state where
  "example_full = example_s1\<lparr>js_class_id_alloc := 65536\<rparr>"

section \<open>Auxiliary facts\<close>

subsection \<open>Reading cells and calling the channel\<close>

lemma read_obj_Inr_iff:
  "read_obj s p = Inr ob \<longleftrightarrow> p \<noteq> 0 \<and> map_of (objects s) p = Some ob"
  by (auto simp: read_obj_def split: option.splits)

lemma invoke_channel_live:
  "a \<noteq> 0 \<Longrightarrow> runtime_ctxs s a = Some r \<Longrightarrow>
   invoke_channel a c k d s = Inr (channel r c k d, s\<lparr>dispatched := dispatched s @ [(c, k, d)]\<rparr>)"
  by (simp add: invoke_channel_def read_rt_def)

lemma js_begin_call_live:
  assumes "JS_GetRuntimeOpaque rt s = a" "a \<noteq> 0" "runtime_ctxs s a = Some r"
  shows "js_begin_call now rt s =
           Inr (s\<lparr>engine_log := engine_log s @ [E_UpdateStackTop rt],
                  runtime_ctxs := (runtime_ctxs s)(a \<mapsto> r\<lparr>start := now\<rparr>)\<rparr>)"
  using assms
  by (simp add: js_begin_call_def Let_def JS_UpdateStackTop_def JS_GetRuntimeOpaque_def read_rt_def)

subsection \<open>The finalizer and the collection of objects\<close>

lemma finalizer_live_context:
  assumes "read_obj s p = Inr ob" "JS_GetRuntimeOpaque rt s = a" "a \<noteq> 0" "runtime_ctxs s a = Some r"
  shows "jsNewClass_finalizer rt (JS_OBJECT p) s =
           Inr (s\<lparr>dispatched := dispatched s @
                  [(Of_rt rt, JSChannelType_FREE_OBJECT, P_Opaque (obj_opaque ob))]\<rparr>)"
  using assms
  by (simp add: jsNewClass_finalizer_def JS_GetClassID_def JS_GetOpaque_def invoke_channel_live)

lemma finalizer_null_context:
  assumes "read_obj s p = Inr ob" "JS_GetRuntimeOpaque rt s = 0"
  shows "jsNewClass_finalizer rt (JS_OBJECT p) s = Inr s"
  using assms
  by (simp add: jsNewClass_finalizer_def JS_GetClassID_def JS_GetOpaque_def)

lemma free_object_null_context:
  assumes "read_obj s p = Inr ob" "JS_GetRuntimeOpaque rt s = 0"
  shows "free_object rt p s = Inr (s\<lparr>objects := AList.delete p (objects s)\<rparr>)"
  using assms finalizer_null_context [OF assms]
  by (simp add: free_object_def split: option.splits JSClassFinalizer.splits)

lemma free_object_live_context:
  assumes "read_obj s p = Inr ob" "JS_GetRuntimeOpaque rt s = a" "a \<noteq> 0" "runtime_ctxs s a = Some r"
    and "class_array s rt (obj_class_id ob) = Some d" "finalizer d = Some Fn_jsNewClass_finalizer"
  shows "free_object rt p s =
           Inr (s\<lparr>dispatched := dispatched s @
                    [(Of_rt rt, JSChannelType_FREE_OBJECT, P_Opaque (obj_opaque ob))],
                  objects := AList.delete p (objects s)\<rparr>)"
  using assms(5,6) finalizer_live_context [OF assms(1-4)]
  by (simp add: free_object_def assms(1))

lemma free_objects_null_context:
  assumes "JS_GetRuntimeOpaque rt s = 0" "distinct ps" "0 \<notin> set ps"
    and "set ps \<subseteq> fst ` set (objects s)"
  shows "free_objects rt ps s = Inr (s\<lparr>objects := filter (\<lambda>e. fst e \<notin> set ps) (objects s)\<rparr>)"
  using assms
proof (induction ps arbitrary: s)
  case Nil
  then show ?case by simp
next
  case (Cons p ps)
  from Cons.prems obtain ob where ob: "map_of (objects s) p = Some ob"
    by (metis list.set_intros(1) subsetD map_of_eq_None_iff not_Some_eq)
  with Cons.prems have r: "read_obj s p = Inr ob"
    by (simp add: read_obj_Inr_iff)
  let ?s1 = "s\<lparr>objects := AList.delete p (objects s)\<rparr>"
  have step: "free_object rt p s = Inr ?s1"
    using free_object_null_context [OF r Cons.prems(1)] .
  have sub: "set ps \<subseteq> fst ` set (objects ?s1)"
  proof
    fix x assume x: "x \<in> set ps"
    with Cons.prems(4) obtain e where "e \<in> set (objects s)" "fst e = x" by auto
    moreover from x Cons.prems(2) have "x \<noteq> p" by auto
    ultimately show "x \<in> fst ` set (objects ?s1)"
      by (force simp: AList.delete_eq)
  qed
  have "free_objects rt ps ?s1 =
          Inr (?s1\<lparr>objects := filter (\<lambda>e. fst e \<notin> set ps) (objects ?s1)\<rparr>)"
    using Cons.prems by (intro Cons.IH sub) (simp_all add: JS_GetRuntimeOpaque_def)
  moreover have "filter (\<lambda>e. fst e \<notin> set ps) (AList.delete p (objects s)) =
                 filter (\<lambda>e. fst e \<notin> set (p # ps)) (objects s)"
    by (induction "objects s") (auto simp: AList.delete_eq intro: filter_cong)
  ultimately show ?case using step by simp
qed

lemma owned_objects_props:
  assumes "wf_objects s"
  shows "distinct (owned_objects rt s)" "0 \<notin> set (owned_objects rt s)"
        "set (owned_objects rt s) \<subseteq> fst ` set (objects s)"
  using assms
  by (auto simp: wf_objects_def owned_objects_def distinct_map_filter)

lemma JS_FreeRuntime_null_context:
  assumes "wf_objects s" "JS_GetRuntimeOpaque rt s = 0"
  shows "JS_FreeRuntime rt s =
           Inr (s\<lparr>objects := filter (\<lambda>e. fst e \<notin> set (owned_objects rt s)) (objects s),
                  class_array := (class_array s)(rt := Map.empty)\<rparr>)"
  using free_objects_null_context [OF assms(2) owned_objects_props [OF assms(1)]]
  by (simp add: JS_FreeRuntime_def)

lemma jsFreeRuntime_result:
  assumes "wf_objects s" "JS_GetRuntimeOpaque rt s = a" "a \<noteq> 0" "runtime_ctxs s a = Some r"
  shows "jsFreeRuntime rt s =
           Inr (s\<lparr>runtime_ctxs := (runtime_ctxs s)(a := None),
                  rt_user_opaque := (rt_user_opaque s)(rt := 0),
                  objects := filter (\<lambda>e. fst e \<notin> set (owned_objects rt s)) (objects s),
                  class_array := (class_array s)(rt := Map.empty)\<rparr>)"
proof -
  let ?s2 = "JS_SetRuntimeOpaque rt 0 (s\<lparr>runtime_ctxs := (runtime_ctxs s)(a := None)\<rparr>)"
  have wf: "wf_objects ?s2" using assms(1) by (simp add: wf_objects_def JS_SetRuntimeOpaque_def)
  have nul: "JS_GetRuntimeOpaque rt ?s2 = 0"
    by (simp add: JS_GetRuntimeOpaque_def JS_SetRuntimeOpaque_def)
  have own: "owned_objects rt ?s2 = owned_objects rt s"
    by (simp add: owned_objects_def JS_SetRuntimeOpaque_def)
  have "jsFreeRuntime rt s = JS_FreeRuntime rt ?s2"
    using assms(2-4) by (simp add: jsFreeRuntime_def CPP_DELETE_RT_def)
  then show ?thesis
    using JS_FreeRuntime_null_context [OF wf nul] own
    by (simp add: JS_SetRuntimeOpaque_def)
qed

lemma owned_object_removed:
  assumes "map_of (objects s) p = Some ob" "obj_rt ob = rt" "distinct (map fst (objects s))"
  shows "map_of (filter (\<lambda>e. fst e \<notin> set (owned_objects rt s)) (objects s)) p = None"
proof -
  have "(p, ob) \<in> set (objects s)" using assms(1) by (rule map_of_SomeD)
  then have "p \<in> set (owned_objects rt s)"
    using assms(2) by (force simp: owned_objects_def)
  then show ?thesis
    by (auto simp: map_of_eq_None_iff)
qed

lemma JS_SetOpaque_object:
  assumes "read_obj s p = Inr ob"
  shows "JS_SetOpaque (JS_OBJECT p) q s =
           Inr (s\<lparr>objects := AList.update p (ob\<lparr>obj_opaque := q\<rparr>) (objects s)\<rparr>)"
  using assms by (simp add: JS_SetOpaque_def)

lemma wf_objects_update:
  assumes "wf_objects s" "map_of (objects s) p = Some ob"
  shows "wf_objects (s\<lparr>objects := AList.update p ob' (objects s)\<rparr>)"
proof -
  from assms(2) have "p \<in> fst ` set (objects s)"
    by (metis map_of_eq_None_iff option.distinct(1))
  then show ?thesis
    using assms(1) by (auto simp: wf_objects_def AList.distinct_update AList.update_keys)
qed

subsection \<open>Releasing a reference leaves the boxes alone\<close>

lemma invoke_channel_boxes:
  "invoke_channel a c k d s = Inr (x, s') \<Longrightarrow> boxes s' = boxes s"
  by (auto simp: invoke_channel_def split: sum.splits)

lemma finalizer_boxes:
  "jsNewClass_finalizer rt obj s = Inr s' \<Longrightarrow> boxes s' = boxes s"
  by (auto simp: jsNewClass_finalizer_def Let_def split: sum.splits if_splits
           dest: invoke_channel_boxes)

lemma free_object_boxes:
  "free_object rt p s = Inr s' \<Longrightarrow> boxes s' = boxes s"
  by (auto simp: free_object_def split: sum.splits option.splits JSClassFinalizer.splits
           dest: finalizer_boxes)

lemma JS_FreeValueRT_boxes:
  "JS_FreeValueRT rt v s = Inr s' \<Longrightarrow> boxes s' = boxes s"
  by (auto simp: JS_FreeValueRT_def split: JSValue.splits sum.splits if_splits
           dest: free_object_boxes)

subsection \<open>The interrupt threshold\<close>




text \<open>
  Where the product does not fit \<open>int64_t\<close> the handler has no defined result: a
  timeout of 9223372036855 ms with \<open>10^6\<close> ticks to the second.
\<close>

lemma js_interrupt_handler_overflow:
  assumes "opaque \<noteq> 0"
    and "runtime_ctxs s opaque = Some \<lparr>channel = ch, timeout = 9223372036855, start = 1000\<rparr>"
  shows "js_interrupt_handler 1000000 61000 rt opaque s = Inl SignedOverflow"
  using assms by (simp add: js_interrupt_handler_def read_rt_def int64_range_def Let_def)

subsection \<open>Evaluation with an engine that never faults\<close>

lemma jsEval_fallible_total:
  "jsEval_fallible (\<lambda>c i l f e t. Inr (js_eval c i l f e t)) now ctx input input_len filename
      eval_flags s
   = jsEval js_eval now ctx input input_len filename eval_flags s"
  by (simp add: jsEval_fallible_def jsEval_def split: sum.splits prod.splits)

lemma module_loader_opaque_begin_call:
  "module_loader_opaque rt (s\<lparr>engine_log := engine_log s @ [E_UpdateStackTop r],
                              runtime_ctxs := m\<rparr>) = module_loader_opaque rt s"
  by (simp add: module_loader_opaque_def)

subsection \<open>The module loader on a null answer of the host\<close>

lemma loader_null_answer:
  assumes "opaque \<noteq> 0" "runtime_ctxs s opaque = Some r"
    and "channel r (Of_ctx ctx) JSChannelType_MODULE (P_ModuleName module_name) = None"
  shows "my_js_module_loader js_eval ctx module_name opaque s
           = Inr (0, s\<lparr>dispatched := dispatched s @
                      [(Of_ctx ctx, JSChannelType_MODULE, P_ModuleName module_name)]\<rparr>)"
  using assms by (simp add: my_js_module_loader_def invoke_channel_live)

subsection \<open>The example states\<close>

lemma example_s1_fields:
  "fst (jsNewRuntime example_channel 50 boot_state) = 10"
  "rt_user_opaque example_s1 10 = 11"
  "runtime_ctxs example_s1 11 = Some example_rc"
  "class_array example_s1 10 = Map.empty"
  "js_class_id_alloc example_s1 = 64"
  "next_ptr example_s1 = 11"
  "objects example_s1 = []"
  "dispatched example_s1 = []"
  "boxes example_s1 = Map.empty"
  by (simp_all add: example_s1_def jsNewRuntime_def JS_NewRuntime_def CPP_NEW_RT_def
        JS_SetRuntimeOpaque_def JS_SetHostPromiseRejectionTracker_def
        JS_SetModuleLoaderFunc_def JS_SetInterruptHandler_def boot_state_def example_rc_def Let_def)

lemma example_s2_eq:
  "jsNewClass JS_NewClass example_ctx ''JSObject'' example_s1
     = (64, example_s1\<lparr>js_class_id_alloc := 65,
                       class_array := (class_array example_s1)(10 := [64 \<mapsto> example_def])\<rparr>)"
  by (simp add: jsNewClass_def JS_NewClassID_def JS_IsRegisteredClass_def JS_NewClass_def
        JS_GetRuntime_def example_ctx_def example_s1_fields Let_def example_def_def)

lemma example_s2_fields:
  "rt_user_opaque example_s2 10 = 11"
  "runtime_ctxs example_s2 11 = Some example_rc"
  "class_array example_s2 10 64 = Some example_def"
  "js_class_id_alloc example_s2 = 65"
  "next_ptr example_s2 = 11"
  "objects example_s2 = []"
  "dispatched example_s2 = []"
  "boxes example_s2 = Map.empty"
  by (simp_all add: example_s2_def example_s2_eq example_s1_fields)

lemma example_s3_eq:
  "jsNewObjectClass JS_NewObjectClass example_ctx 64 4242 example_s2
     = Inr (13, example_s2\<lparr>next_ptr := 13, boxes := [13 \<mapsto> JS_OBJECT 12],
                           objects := [(12, example_obj)]\<rparr>)"
  by (simp add: jsNewObjectClass_def JS_NewObjectClass_def CPP_NEW_JSVALUE_def read_box_def
        JS_IsException_def JS_SetOpaque_def read_obj_def JS_GetRuntime_def example_ctx_def
        example_s2_fields Let_def example_obj_def)

lemma example_s3_fields:
  "rt_user_opaque example_s3 10 = 11"
  "runtime_ctxs example_s3 11 = Some example_rc"
  "class_array example_s3 10 64 = Some example_def"
  "objects example_s3 = [(12, example_obj)]"
  "dispatched example_s3 = []"
  "boxes example_s3 13 = Some (JS_OBJECT 12)"
  by (simp_all add: example_s3_def example_s3_eq example_s2_fields)

lemma example_s4_eq:
  "js_begin_call 1000 10 example_s3
     = Inr (example_s3\<lparr>engine_log := engine_log example_s3 @ [E_UpdateStackTop 10],
                        runtime_ctxs := (runtime_ctxs example_s3)(11 \<mapsto> example_rc\<lparr>start := 1000\<rparr>)\<rparr>)"
  by (rule js_begin_call_live) (simp_all add: JS_GetRuntimeOpaque_def example_s3_fields)


lemma example_s3_loader: "module_loader_opaque 10 example_s3 = Some 11"
proof -
  have "engine_log example_s1 =
          [E_SetHostPromiseRejectionTracker 10 11, E_SetModuleLoaderFunc 10 11,
           E_SetInterruptHandler 10 11]"
    by (simp add: example_s1_def jsNewRuntime_def JS_NewRuntime_def CPP_NEW_RT_def
          JS_SetRuntimeOpaque_def JS_SetHostPromiseRejectionTracker_def
          JS_SetModuleLoaderFunc_def JS_SetInterruptHandler_def boot_state_def Let_def)
  moreover have "engine_log example_s2 = engine_log example_s1"
    by (simp add: example_s2_def example_s2_eq)
  moreover have "engine_log example_s3 = engine_log example_s2"
    by (simp add: example_s3_def example_s3_eq)
  ultimately show ?thesis
    by (simp add: module_loader_opaque_def)
qed

lemma example_wf: "wf_objects example_s3"
  by (simp add: wf_objects_def example_s3_fields)

lemma example_read_obj: "read_obj example_s3 12 = Inr example_obj"
  by (simp add: read_obj_def example_s3_fields)

lemma example_free_eq:
  "JS_FreeValueRT 10 (JS_OBJECT 12) example_s3
     = Inr (example_s3\<lparr>dispatched := [(Of_rt 10, JSChannelType_FREE_OBJECT, P_Opaque 4242)],
                        objects := []\<rparr>)"
proof -
  have "free_object 10 12 example_s3
     = Inr (example_s3\<lparr>dispatched := dispatched example_s3 @
               [(Of_rt 10, JSChannelType_FREE_OBJECT, P_Opaque (obj_opaque example_obj))],
             objects := AList.delete 12 (objects example_s3)\<rparr>)"
    by (rule free_object_live_context [OF example_read_obj, of 10 11 example_rc example_def])
       (simp_all add: JS_GetRuntimeOpaque_def example_s3_fields example_obj_def example_def_def)
  then show ?thesis
    by (simp add: JS_FreeValueRT_def example_read_obj example_s3_fields example_obj_def)
qed

subsection \<open>Identifiers handed out by \<open>jsNewClass\<close>\<close>

text \<open>
  With the engine's \<open>JS_NewClass\<close>, a call of \<open>jsNewClass\<close> returns 0 or the next
  identifier of the allocator, and moves the allocator on by one. So a second call never
  returns the identifier of a first call that succeeded.
\<close>

lemma jsNewClass_result:
  "fst (jsNewClass JS_NewClass ctx name s) = 0
   \<or> fst (jsNewClass JS_NewClass ctx name s) = js_class_id_alloc s"
  by (simp add: jsNewClass_def JS_NewClassID_def Let_def split: prod.splits)

lemma jsNewClass_allocator:
  "js_class_id_alloc (snd (jsNewClass JS_NewClass ctx name s)) = js_class_id_alloc s + 1"
  by (simp add: jsNewClass_def JS_NewClassID_def JS_NewClass_def JS_ThrowInternalError_def Let_def)

lemma jsNewClass_fresh_each_call:
  assumes "jsNewClass JS_NewClass ctx name s = (id1, s1)"
    and "jsNewClass JS_NewClass ctx name s1 = (id2, s2)"
    and "id1 \<noteq> 0"
  shows "id2 \<noteq> id1"
proof -
  from assms(1,3) jsNewClass_result [of ctx name s]
  have a: "id1 = js_class_id_alloc s" by simp
  from assms(1) jsNewClass_allocator [of ctx name s]
  have "js_class_id_alloc s1 = js_class_id_alloc s + 1" by simp
  with assms(2) jsNewClass_result [of ctx name s1]
  have "id2 = 0 \<or> id2 = js_class_id_alloc s + 1" by simp
  with a assms(3) show ?thesis by auto
qed

section \<open>The claims\<close>

text \<open>
  Claim C1: calling \<open>jsNewClass\<close> twice with the same class name on the same runtime
  returns the same class identifier both times. The code does not do this: the slot
  \<open>QJSClassId\<close> is a local variable that starts at 0 in every call, so the engine
  allocates a new identifier each time and the test \<open>JS_IsRegisteredClass\<close> never finds
  a class. On the example runtime the first call returns 64 and the second 65.
\<close>

theorem jsNewClass_twice_differs:
  "fst (jsNewClass JS_NewClass example_ctx ''JSObject'' example_s1) = 64
   \<and> fst (jsNewClass JS_NewClass example_ctx ''JSObject''
            (snd (jsNewClass JS_NewClass example_ctx ''JSObject'' example_s1))) = 65"
  by (simp add: example_s2_eq jsNewClass_def JS_NewClassID_def JS_IsRegisteredClass_def
        JS_NewClass_def JS_GetRuntime_def example_ctx_def example_s1_fields Let_def)

text \<open>
  Claim C2, as amended: \<open>jsFreeValue\<close> and \<open>jsFreeValueRT\<close> always release the
  engine-level reference held by the box (the effect of \<open>JS_FreeValue\<close>, respectively
  \<open>JS_FreeValueRT\<close>, on the boxed value takes place whatever the flag is), and they
  deallocate the box exactly when the flag is not 0. A fault of the engine call is the
  fault of the whole operation.
\<close>

theorem jsFreeValue_flag_gates_box_only:
  assumes "v \<noteq> 0" "boxes s v = Some val"
  shows "(\<forall>s1. JS_FreeValue ctx val s = Inr s1 \<longrightarrow>
              jsFreeValue ctx v free s
                = Inr (if free \<noteq> 0 then s1\<lparr>boxes := (boxes s1)(v := None)\<rparr> else s1))
       \<and> (\<forall>f. JS_FreeValue ctx val s = Inl f \<longrightarrow> jsFreeValue ctx v free s = Inl f)
       \<and> (\<forall>s1. JS_FreeValueRT rt val s = Inr s1 \<longrightarrow>
              jsFreeValueRT rt v free s
                = Inr (if free \<noteq> 0 then s1\<lparr>boxes := (boxes s1)(v := None)\<rparr> else s1))
       \<and> (\<forall>f. JS_FreeValueRT rt val s = Inl f \<longrightarrow> jsFreeValueRT rt v free s = Inl f)"
  using assms
  by (auto simp: jsFreeValue_def jsFreeValueRT_def read_box_def CPP_DELETE_JSVALUE_def
        JS_FreeValue_def dest!: JS_FreeValueRT_boxes)

theorem jsFreeValue_flag_gates_box_only_witness:
  "(13::nat) \<noteq> 0 \<and> boxes example_s3 13 = Some (JS_OBJECT 12)
   \<and> JS_FreeValue example_ctx (JS_OBJECT 12) example_s3
       = Inr (example_s3\<lparr>dispatched := [(Of_rt 10, JSChannelType_FREE_OBJECT, P_Opaque 4242)],
                          objects := []\<rparr>)
   \<and> jsFreeValue example_ctx 13 0 example_s3
       = Inr (example_s3\<lparr>dispatched := [(Of_rt 10, JSChannelType_FREE_OBJECT, P_Opaque 4242)],
                          objects := []\<rparr>)
   \<and> jsFreeValueRT 10 13 1 example_s3
       = Inr (example_s3\<lparr>dispatched := [(Of_rt 10, JSChannelType_FREE_OBJECT, P_Opaque 4242)],
                          objects := [],
                          boxes := (boxes example_s3)(13 := None)\<rparr>)"
proof -
  have h1: "(13::nat) \<noteq> 0" by simp
  have h2: "boxes example_s3 13 = Some (JS_OBJECT 12)" by (simp add: example_s3_fields)
  have e: "JS_FreeValue example_ctx (JS_OBJECT 12) example_s3
       = Inr (example_s3\<lparr>dispatched := [(Of_rt 10, JSChannelType_FREE_OBJECT, P_Opaque 4242)],
                          objects := []\<rparr>)"
    by (simp add: JS_FreeValue_def JS_GetRuntime_def example_ctx_def example_free_eq)
  show ?thesis
    using h1 h2 e example_free_eq
      jsFreeValue_flag_gates_box_only [OF h1 h2, of example_ctx 0 10]
      jsFreeValue_flag_gates_box_only [OF h1 h2, of example_ctx 1 10]
    by simp
qed

text \<open>
  Claim C2 as stated (the flag decides whether the engine-level reference is released,
  and the box is deallocated) fails: with flag 0 on the box of the example object, whose
  reference count is 1, the reference is released, so that the object is collected, and
  the box stays allocated.
\<close>

theorem jsFreeValue_releases_without_flag:
  "map_of (objects example_s3) 12 = Some example_obj
   \<and> obj_ref_count example_obj = 1
   \<and> \<not> isl (jsFreeValue example_ctx 13 0 example_s3)
   \<and> map_of (objects (projr (jsFreeValue example_ctx 13 0 example_s3))) 12 = None
   \<and> boxes (projr (jsFreeValue example_ctx 13 0 example_s3)) 13 = Some (JS_OBJECT 12)"
  by (simp add: jsFreeValue_def read_box_def JS_FreeValue_def JS_GetRuntime_def example_ctx_def
        example_free_eq example_s3_fields example_obj_def)



text \<open>
  Claim C4: when a rejection is reported as handled, the tracker returns without calling
  the dispatch channel, and the state is unchanged; when it is reported as unhandled,
  the tracker calls the channel of the Runtime Context exactly once, with the kind
  \<open>PROMISE_TRACK\<close> and the rejection reason as payload.
\<close>

theorem promise_rejection_tracker_dispatch:
  "(is_handled \<noteq> 0 \<longrightarrow>
      js_promise_rejection_tracker ctx promise reason is_handled opaque s = Inr s)
   \<and> (is_handled = 0 \<longrightarrow> opaque \<noteq> 0 \<longrightarrow> runtime_ctxs s opaque = Some r \<longrightarrow>
      js_promise_rejection_tracker ctx promise reason is_handled opaque s
        = Inr (s\<lparr>dispatched := dispatched s @
                  [(Of_ctx ctx, JSChannelType_PROMISE_TRACK, P_Value reason)]\<rparr>))"
  by (simp add: js_promise_rejection_tracker_def invoke_channel_live)

theorem promise_rejection_tracker_dispatch_witness:
  "(1::32 word) \<noteq> 0
   \<and> js_promise_rejection_tracker example_ctx JS_UNDEFINED (JS_INT 5) 1 11 example_s3
       = Inr example_s3
   \<and> (11::nat) \<noteq> 0 \<and> runtime_ctxs example_s3 11 = Some example_rc
   \<and> js_promise_rejection_tracker example_ctx JS_UNDEFINED (JS_INT 5) 0 11 example_s3
       = Inr (example_s3\<lparr>dispatched := dispatched example_s3 @
                 [(Of_ctx example_ctx, JSChannelType_PROMISE_TRACK, P_Value (JS_INT 5))]\<rparr>)"
  using promise_rejection_tracker_dispatch
          [of 1 example_ctx JS_UNDEFINED "JS_INT 5" 11 example_s3 example_rc]
        promise_rejection_tracker_dispatch
          [of 0 example_ctx JS_UNDEFINED "JS_INT 5" 11 example_s3 example_rc]
  by (simp add: example_s3_fields)

text \<open>
  Claim C5: when the runtime's user pointer is null as the finalizer runs on an object,
  the finalizer returns without calling the dispatch channel and without a fault: the
  state is unchanged. This is the situation once \<open>jsFreeRuntime\<close> has set the user
  pointer to null.
\<close>

theorem finalizer_null_context_is_noop:
  assumes "p \<noteq> 0" "map_of (objects s) p = Some ob"
  shows "(JS_GetRuntimeOpaque rt s = 0 \<longrightarrow> jsNewClass_finalizer rt (JS_OBJECT p) s = Inr s)
       \<and> jsNewClass_finalizer rt (JS_OBJECT p) (JS_SetRuntimeOpaque rt 0 s)
           = Inr (JS_SetRuntimeOpaque rt 0 s)"
proof -
  have r: "read_obj s p = Inr ob" using assms by (simp add: read_obj_Inr_iff)
  have r': "read_obj (JS_SetRuntimeOpaque rt 0 s) p = Inr ob"
    using assms by (simp add: read_obj_Inr_iff JS_SetRuntimeOpaque_def)
  have "JS_GetRuntimeOpaque rt (JS_SetRuntimeOpaque rt 0 s) = 0"
    by (simp add: JS_GetRuntimeOpaque_def JS_SetRuntimeOpaque_def)
  then show ?thesis
    using finalizer_null_context [OF r] finalizer_null_context [OF r'] by simp
qed

theorem finalizer_null_context_is_noop_witness:
  "(12::nat) \<noteq> 0
   \<and> map_of (objects (JS_SetRuntimeOpaque 10 0 example_s3)) 12 = Some example_obj
   \<and> JS_GetRuntimeOpaque 10 (JS_SetRuntimeOpaque 10 0 example_s3) = 0
   \<and> jsNewClass_finalizer 10 (JS_OBJECT 12) (JS_SetRuntimeOpaque 10 0 example_s3)
       = Inr (JS_SetRuntimeOpaque 10 0 example_s3)"
proof -
  have h1: "(12::nat) \<noteq> 0" by simp
  have h2: "map_of (objects (JS_SetRuntimeOpaque 10 0 example_s3)) 12 = Some example_obj"
    by (simp add: JS_SetRuntimeOpaque_def example_s3_fields)
  have h3: "JS_GetRuntimeOpaque 10 (JS_SetRuntimeOpaque 10 0 example_s3) = 0"
    by (simp add: JS_SetRuntimeOpaque_def JS_GetRuntimeOpaque_def)
  show ?thesis
    using h1 h2 h3 finalizer_null_context_is_noop [OF h1 h2, of 10] by simp
qed

text \<open>
  Claim C6: take a live object of a class registered by \<open>jsNewClass\<close>, in a runtime
  whose Runtime Context is allocated, and attach an opaque pointer \<open>q\<close> to it. If the
  engine then frees the object, exactly one dispatch is added, \<open>FREE_OBJECT\<close> with
  \<open>q\<close>, while the Runtime Context is still allocated, and the object is gone, so it
  cannot be finalized again. If instead the runtime is torn down with \<open>jsFreeRuntime\<close>,
  the Runtime Context is freed, the user pointer is null, the object is collected, and no
  dispatch at all is added.
\<close>

theorem free_object_dispatch_once_or_never:
  assumes wf: "wf_objects s"
    and slot: "JS_GetRuntimeOpaque rt s = a" "a \<noteq> 0" "runtime_ctxs s a = Some r"
    and obj: "map_of (objects s) p = Some ob" "obj_rt ob = rt"
    and cls: "class_array s rt (obj_class_id ob) = Some d"
             "finalizer d = Some Fn_jsNewClass_finalizer"
  shows "\<exists>s1. JS_SetOpaque (JS_OBJECT p) q s = Inr s1
          \<and> (\<exists>s2. free_object rt p s1 = Inr s2
                 \<and> dispatched s2 = dispatched s @ [(Of_rt rt, JSChannelType_FREE_OBJECT, P_Opaque q)]
                 \<and> runtime_ctxs s2 a = Some r
                 \<and> map_of (objects s2) p = None
                 \<and> free_object rt p s2 = Inl InvalidDeref)
          \<and> (\<exists>s3. jsFreeRuntime rt s1 = Inr s3
                 \<and> dispatched s3 = dispatched s
                 \<and> runtime_ctxs s3 a = None
                 \<and> JS_GetRuntimeOpaque rt s3 = 0
                 \<and> map_of (objects s3) p = None)"
proof -
  from wf obj(1) have p0: "p \<noteq> 0"
    by (metis map_of_SomeD wf_objects_def set_map image_eqI fst_conv)
  then have rd: "read_obj s p = Inr ob" using obj(1) by (simp add: read_obj_Inr_iff)
  let ?ob = "ob\<lparr>obj_opaque := q\<rparr>"
  let ?s1 = "s\<lparr>objects := AList.update p ?ob (objects s)\<rparr>"
  have set: "JS_SetOpaque (JS_OBJECT p) q s = Inr ?s1"
    using JS_SetOpaque_object [OF rd] .
  have wf1: "wf_objects ?s1" using wf_objects_update [OF wf obj(1)] .
  have m1: "map_of (objects ?s1) p = Some ?ob" by (simp add: AList.update_conv')
  have rd1: "read_obj ?s1 p = Inr ?ob" using p0 m1 by (simp add: read_obj_Inr_iff)
  have slot1: "JS_GetRuntimeOpaque rt ?s1 = a" using slot(1) by (simp add: JS_GetRuntimeOpaque_def)
  have ctx1: "runtime_ctxs ?s1 a = Some r" using slot(3) by simp
  have cls1: "class_array ?s1 rt (obj_class_id ?ob) = Some d" using cls(1) by simp
  let ?s2 = "?s1\<lparr>dispatched := dispatched ?s1 @
                    [(Of_rt rt, JSChannelType_FREE_OBJECT, P_Opaque (obj_opaque ?ob))],
                  objects := AList.delete p (objects ?s1)\<rparr>"
  have fo: "free_object rt p ?s1 = Inr ?s2"
    using free_object_live_context [OF rd1 slot1 slot(2) ctx1 cls1 cls(2)] .
  have gone: "map_of (objects ?s2) p = None" by (simp add: AList.delete_conv')
  then have again: "free_object rt p ?s2 = Inl InvalidDeref"
    using p0 by (simp add: free_object_def read_obj_def)
  have alive: "\<exists>s2. free_object rt p ?s1 = Inr s2
                 \<and> dispatched s2 = dispatched s @ [(Of_rt rt, JSChannelType_FREE_OBJECT, P_Opaque q)]
                 \<and> runtime_ctxs s2 a = Some r
                 \<and> map_of (objects s2) p = None
                 \<and> free_object rt p s2 = Inl InvalidDeref"
    using fo gone again slot(3) by simp
  have fr: "jsFreeRuntime rt ?s1 =
           Inr (?s1\<lparr>runtime_ctxs := (runtime_ctxs ?s1)(a := None),
                  rt_user_opaque := (rt_user_opaque ?s1)(rt := 0),
                  objects := filter (\<lambda>e. fst e \<notin> set (owned_objects rt ?s1)) (objects ?s1),
                  class_array := (class_array ?s1)(rt := Map.empty)\<rparr>)"
    using jsFreeRuntime_result [OF wf1 slot1 slot(2) ctx1] .
  have "obj_rt ?ob = rt" using obj(2) by simp
  from owned_object_removed [OF m1 this] wf1
  have rem: "map_of (filter (\<lambda>e. fst e \<notin> set (owned_objects rt ?s1)) (objects ?s1)) p = None"
    by (simp add: wf_objects_def)
  have torn: "\<exists>s3. jsFreeRuntime rt ?s1 = Inr s3
                 \<and> dispatched s3 = dispatched s
                 \<and> runtime_ctxs s3 a = None
                 \<and> JS_GetRuntimeOpaque rt s3 = 0
                 \<and> map_of (objects s3) p = None"
    using fr rem by (simp add: JS_GetRuntimeOpaque_def)
  show ?thesis using set alive torn by blast
qed

theorem free_object_dispatch_once_or_never_witness:
  "wf_objects example_s3
   \<and> JS_GetRuntimeOpaque 10 example_s3 = 11 \<and> (11::nat) \<noteq> 0
   \<and> runtime_ctxs example_s3 11 = Some example_rc
   \<and> map_of (objects example_s3) 12 = Some example_obj \<and> obj_rt example_obj = 10
   \<and> class_array example_s3 10 (obj_class_id example_obj) = Some example_def
   \<and> finalizer example_def = Some Fn_jsNewClass_finalizer
   \<and> (\<exists>s1. JS_SetOpaque (JS_OBJECT 12) 4242 example_s3 = Inr s1
          \<and> (\<exists>s2. free_object 10 12 s1 = Inr s2
                 \<and> dispatched s2 = [(Of_rt 10, JSChannelType_FREE_OBJECT, P_Opaque 4242)]
                 \<and> runtime_ctxs s2 11 = Some example_rc
                 \<and> map_of (objects s2) 12 = None)
          \<and> (\<exists>s3. jsFreeRuntime 10 s1 = Inr s3
                 \<and> dispatched s3 = []
                 \<and> runtime_ctxs s3 11 = None
                 \<and> JS_GetRuntimeOpaque 10 s3 = 0
                 \<and> map_of (objects s3) 12 = None))"
proof -
  have h1: "wf_objects example_s3" by (rule example_wf)
  have h2: "JS_GetRuntimeOpaque 10 example_s3 = 11"
    by (simp add: JS_GetRuntimeOpaque_def example_s3_fields)
  have h3: "(11::nat) \<noteq> 0" by simp
  have h4: "runtime_ctxs example_s3 11 = Some example_rc" by (simp add: example_s3_fields)
  have h5: "map_of (objects example_s3) 12 = Some example_obj" by (simp add: example_s3_fields)
  have h6: "obj_rt example_obj = 10" by (simp add: example_obj_def)
  have h7: "class_array example_s3 10 (obj_class_id example_obj) = Some example_def"
    by (simp add: example_obj_def example_s3_fields)
  have h8: "finalizer example_def = Some Fn_jsNewClass_finalizer" by (simp add: example_def_def)
  have d: "dispatched example_s3 = []" by (simp add: example_s3_fields)
  from free_object_dispatch_once_or_never [OF h1 h2 h3 h4 h5 h6 h7 h8, of 4242]
  obtain s1 where s1: "JS_SetOpaque (JS_OBJECT 12) 4242 example_s3 = Inr s1"
    and a: "\<exists>s2. free_object 10 12 s1 = Inr s2
                 \<and> dispatched s2 = dispatched example_s3 @
                      [(Of_rt 10, JSChannelType_FREE_OBJECT, P_Opaque 4242)]
                 \<and> runtime_ctxs s2 11 = Some example_rc
                 \<and> map_of (objects s2) 12 = None
                 \<and> free_object 10 12 s2 = Inl InvalidDeref"
    and b: "\<exists>s3. jsFreeRuntime 10 s1 = Inr s3
                 \<and> dispatched s3 = dispatched example_s3
                 \<and> runtime_ctxs s3 11 = None
                 \<and> JS_GetRuntimeOpaque 10 s3 = 0
                 \<and> map_of (objects s3) 12 = None"
    by blast
  from a d have a': "\<exists>s2. free_object 10 12 s1 = Inr s2
                 \<and> dispatched s2 = [(Of_rt 10, JSChannelType_FREE_OBJECT, P_Opaque 4242)]
                 \<and> runtime_ctxs s2 11 = Some example_rc
                 \<and> map_of (objects s2) 12 = None"
    by auto
  from b d have b': "\<exists>s3. jsFreeRuntime 10 s1 = Inr s3
                 \<and> dispatched s3 = []
                 \<and> runtime_ctxs s3 11 = None
                 \<and> JS_GetRuntimeOpaque 10 s3 = 0
                 \<and> map_of (objects s3) 12 = None"
    by auto
  show ?thesis using h1 h2 h3 h4 h5 h6 h7 h8 s1 a' b' by blast
qed

text \<open>
  Claim C7: when the host's callback answers a \<open>MODULE\<close> request with the null pointer,
  the module loader returns \<open>NULL\<close>, without a fault and without entering the engine's
  evaluator: the only effect is the one call of the channel. And on a runtime set up as
  \<open>jsNewRuntime\<close> does (the Runtime Context is the runtime's user pointer and the
  pointer registered with the module loader), evaluating the source text that imports
  that module returns, without a fault, a box that holds the exception marker:
  \<open>jsIsException\<close> answers 1 for it. The channel has been called once, for the module.
\<close>

theorem module_loader_not_found:
  assumes "opaque \<noteq> 0" "runtime_ctxs s opaque = Some r"
    and "channel r (Of_ctx ctx) JSChannelType_MODULE (P_ModuleName module_name) = None"
  shows "my_js_module_loader js_eval ctx module_name opaque s
           = Inr (0, s\<lparr>dispatched := dispatched s @
                      [(Of_ctx ctx, JSChannelType_MODULE, P_ModuleName module_name)]\<rparr>)
       \<and> (JS_GetRuntimeOpaque (JS_GetRuntime ctx) s = opaque \<longrightarrow>
          module_loader_opaque (JS_GetRuntime ctx) s = Some opaque \<longrightarrow>
            (\<exists>b s'. jsEval_fallible (JS_Eval_import js_eval module_name) now ctx
                        (import_source module_name) input_len filename eval_flags s = Inr (b, s')
                  \<and> read_box s' b = Inr JS_EXCEPTION
                  \<and> jsIsException b s' = Inr 1
                  \<and> dispatched s' = dispatched s @
                       [(Of_ctx ctx, JSChannelType_MODULE, P_ModuleName module_name)]))"
proof (intro conjI impI)
  show "my_js_module_loader js_eval ctx module_name opaque s
           = Inr (0, s\<lparr>dispatched := dispatched s @
                      [(Of_ctx ctx, JSChannelType_MODULE, P_ModuleName module_name)]\<rparr>)"
    using loader_null_answer [OF assms] .
next
  assume slot: "JS_GetRuntimeOpaque (JS_GetRuntime ctx) s = opaque"
    and reg: "module_loader_opaque (JS_GetRuntime ctx) s = Some opaque"
  let ?rt = "JS_GetRuntime ctx"
  let ?s1 = "s\<lparr>engine_log := engine_log s @ [E_UpdateStackTop ?rt],
               runtime_ctxs := (runtime_ctxs s)(opaque \<mapsto> r\<lparr>start := now\<rparr>)\<rparr>"
  let ?d = "(Of_ctx ctx, JSChannelType_MODULE, P_ModuleName module_name)"
  let ?s2 = "?s1\<lparr>dispatched := dispatched ?s1 @ [?d]\<rparr>"
  have bc: "js_begin_call now ?rt s = Inr ?s1"
    using js_begin_call_live [OF slot assms(1,2)] .
  have reg1: "module_loader_opaque ?rt ?s1 = Some opaque"
    using reg by (simp add: module_loader_opaque_begin_call)
  have live1: "runtime_ctxs ?s1 opaque = Some (r\<lparr>start := now\<rparr>)" by simp
  have ch1: "channel (r\<lparr>start := now\<rparr>) (Of_ctx ctx) JSChannelType_MODULE
               (P_ModuleName module_name) = None"
    using assms(3) by simp
  have ld: "my_js_module_loader js_eval ctx module_name opaque ?s1 = Inr (0, ?s2)"
    using loader_null_answer [OF assms(1) live1 ch1] .
  have ev: "JS_Eval_import js_eval module_name ctx (import_source module_name) input_len
              filename eval_flags ?s1 = Inr (JS_EXCEPTION, ?s2)"
    using reg1 ld by (simp add: JS_Eval_import_def)
  have res: "jsEval_fallible (JS_Eval_import js_eval module_name) now ctx
               (import_source module_name) input_len filename eval_flags s
             = Inr (CPP_NEW_JSVALUE JS_EXCEPTION ?s2)"
    using bc ev by (simp add: jsEval_fallible_def)
  obtain b s' where bs: "CPP_NEW_JSVALUE JS_EXCEPTION ?s2 = (b, s')" by (cases "CPP_NEW_JSVALUE JS_EXCEPTION ?s2")
  then have rb: "read_box s' b = Inr JS_EXCEPTION"
    and dp: "dispatched s' = dispatched s @ [?d]"
    by (auto simp: CPP_NEW_JSVALUE_def Let_def read_box_def)
  from rb have ie: "jsIsException b s' = Inr 1"
    by (simp add: jsIsException_def JS_IsException_def)
  show "\<exists>b s'. jsEval_fallible (JS_Eval_import js_eval module_name) now ctx
                   (import_source module_name) input_len filename eval_flags s = Inr (b, s')
              \<and> read_box s' b = Inr JS_EXCEPTION
              \<and> jsIsException b s' = Inr 1
              \<and> dispatched s' = dispatched s @ [?d]"
    using res bs rb ie dp by auto
qed

theorem module_loader_not_found_witness:
  "(11::nat) \<noteq> 0 \<and> runtime_ctxs example_s3 11 = Some example_rc
   \<and> channel example_rc (Of_ctx example_ctx) JSChannelType_MODULE (P_ModuleName ''missing'') = None
   \<and> JS_GetRuntimeOpaque (JS_GetRuntime example_ctx) example_s3 = 11
   \<and> module_loader_opaque (JS_GetRuntime example_ctx) example_s3 = Some 11
   \<and> my_js_module_loader example_eval example_ctx ''missing'' 11 example_s3
       = Inr (0, example_s3\<lparr>dispatched := dispatched example_s3 @
                   [(Of_ctx example_ctx, JSChannelType_MODULE, P_ModuleName ''missing'')]\<rparr>)
   \<and> (\<exists>b s'. jsEval_fallible (JS_Eval_import example_eval ''missing'') 1000 example_ctx
                 (import_source ''missing'') 16 ''main'' 0 example_s3 = Inr (b, s')
            \<and> read_box s' b = Inr JS_EXCEPTION
            \<and> jsIsException b s' = Inr 1
            \<and> dispatched s' =
                 [(Of_ctx example_ctx, JSChannelType_MODULE, P_ModuleName ''missing'')])"
proof -
  have rt: "JS_GetRuntime example_ctx = 10" by (simp add: JS_GetRuntime_def example_ctx_def)
  have h1: "(11::nat) \<noteq> 0" by simp
  have h2: "runtime_ctxs example_s3 11 = Some example_rc" by (simp add: example_s3_fields)
  have h3: "channel example_rc (Of_ctx example_ctx) JSChannelType_MODULE
              (P_ModuleName ''missing'') = None"
    by (simp add: example_rc_def example_channel_def)
  have h4: "JS_GetRuntimeOpaque (JS_GetRuntime example_ctx) example_s3 = 11"
    by (simp add: rt JS_GetRuntimeOpaque_def example_s3_fields)
  have h5: "module_loader_opaque (JS_GetRuntime example_ctx) example_s3 = Some 11"
    by (simp add: rt example_s3_loader)
  have d: "dispatched example_s3 = []" by (simp add: example_s3_fields)
  show ?thesis
    using h1 h2 h3 h4 h5 d
      module_loader_not_found [OF h1 h2 h3, of example_eval 1000 16 "''main''" 0]
    by simp
qed

text \<open>
  Claim C8: when the runtime has a Runtime Context attached, \<open>jsEval\<close>, \<open>jsCall\<close> and
  \<open>jsExecutePendingJob\<close> run the engine operation in the state that \<open>js_begin_call\<close>
  leaves, in which the call-start of the Runtime Context is the current clock value.
\<close>

theorem engine_entry_stamps_call_start:
  assumes "JS_GetRuntimeOpaque (JS_GetRuntime ctx) s = a" "a \<noteq> 0" "runtime_ctxs s a = Some r"
  shows "\<exists>s1. js_begin_call now (JS_GetRuntime ctx) s = Inr s1
      \<and> runtime_ctxs s1 a = Some (r\<lparr>start := now\<rparr>)
      \<and> jsEval js_eval now ctx input input_len filename eval_flags s
          = Inr (case js_eval ctx input input_len filename eval_flags s1 of
                   (v, s2) \<Rightarrow> CPP_NEW_JSVALUE v s2)
      \<and> (\<forall>fv tv. read_box s func_obj = Inr fv \<longrightarrow> read_box s this_obj = Inr tv \<longrightarrow>
            jsCall js_call now ctx func_obj this_obj argc argv s
              = Inr (case js_call ctx fv tv argc argv s1 of (v, s2) \<Rightarrow> CPP_NEW_JSVALUE v s2))
      \<and> jsExecutePendingJob js_exec now (JS_GetRuntime ctx) s
          = Inr (js_exec (JS_GetRuntime ctx) s1)"
  using js_begin_call_live [OF assms, of now]
  by (simp add: jsEval_def jsCall_def jsExecutePendingJob_def read_box_def split: prod.splits)

theorem engine_entry_stamps_call_start_witness:
  "JS_GetRuntimeOpaque (JS_GetRuntime example_ctx) example_s3 = 11 \<and> (11::nat) \<noteq> 0
   \<and> runtime_ctxs example_s3 11 = Some example_rc
   \<and> read_box example_s3 13 = Inr (JS_OBJECT 12)
   \<and> js_begin_call 1000 (JS_GetRuntime example_ctx) example_s3 = Inr example_s4
   \<and> runtime_ctxs example_s4 11 = Some (example_rc\<lparr>start := 1000\<rparr>)
   \<and> jsEval example_eval 1000 example_ctx ''1+1'' 3 ''main'' 0 example_s3
       = Inr (CPP_NEW_JSVALUE (JS_INT 2) example_s4)
   \<and> jsCall example_call 1000 example_ctx 13 13 0 [] example_s3
       = Inr (CPP_NEW_JSVALUE JS_UNDEFINED example_s4)
   \<and> jsExecutePendingJob example_exec 1000 (JS_GetRuntime example_ctx) example_s3
       = Inr (1, example_s4)"
proof -
  have rt: "JS_GetRuntime example_ctx = 10" by (simp add: JS_GetRuntime_def example_ctx_def)
  have h1: "JS_GetRuntimeOpaque (JS_GetRuntime example_ctx) example_s3 = 11"
    by (simp add: rt JS_GetRuntimeOpaque_def example_s3_fields)
  have h2: "(11::nat) \<noteq> 0" by simp
  have h3: "runtime_ctxs example_s3 11 = Some example_rc" by (simp add: example_s3_fields)
  have h4: "read_box example_s3 13 = Inr (JS_OBJECT 12)"
    by (simp add: read_box_def example_s3_fields)
  have b: "js_begin_call 1000 (JS_GetRuntime example_ctx) example_s3 = Inr example_s4"
    by (simp add: rt example_s4_def example_s4_eq)
  have x: "example_exec 10 example_s4 = (1, example_s4)"
    by (simp add: example_exec_def example_s4_def example_s4_eq example_s3_fields example_rc_def)
  show ?thesis
    using h1 h2 h3 h4 b x
      engine_entry_stamps_call_start [OF h1 h2 h3, of 1000 example_eval "''1+1''" 3 "''main''" 0
        13 13 example_call 0 "[]" example_exec]
    by (auto simp: rt example_eval_def example_call_def)
qed

text \<open>
  Claim C9: when the engine's object construction returns the exception marker,
  \<open>jsNewObjectClass\<close> returns a box holding that marker and the objects of the engine
  are as the construction left them: nothing is attached. When the construction returns
  a live object, the returned box holds the object and the object carries the opaque
  pointer that was passed in.
\<close>

theorem jsNewObjectClass_attach_only_on_success:
  assumes "new_object ctx cid s = (v, s1)"
  shows "(v = JS_EXCEPTION \<longrightarrow>
           (\<exists>b s2. jsNewObjectClass new_object ctx cid opaque s = Inr (b, s2)
                  \<and> boxes s2 b = Some JS_EXCEPTION \<and> objects s2 = objects s1))
       \<and> (\<forall>p ob. v = JS_OBJECT p \<longrightarrow> p \<noteq> 0 \<longrightarrow> map_of (objects s1) p = Some ob \<longrightarrow>
           (\<exists>b s2. jsNewObjectClass new_object ctx cid opaque s = Inr (b, s2)
                  \<and> boxes s2 b = Some (JS_OBJECT p)
                  \<and> map_of (objects s2) p = Some (ob\<lparr>obj_opaque := opaque\<rparr>)))"
  using assms
  by (simp add: jsNewObjectClass_def CPP_NEW_JSVALUE_def Let_def read_box_def
        JS_IsException_def JS_SetOpaque_def read_obj_def AList.update_conv')

theorem jsNewObjectClass_attach_only_on_success_witness:
  "JS_NewObjectClass_nomem example_ctx 64 example_s2 = (JS_EXCEPTION, example_s2)
   \<and> (\<exists>b s2. jsNewObjectClass JS_NewObjectClass_nomem example_ctx 64 4242 example_s2 = Inr (b, s2)
            \<and> boxes s2 b = Some JS_EXCEPTION \<and> objects s2 = objects example_s2)
   \<and> JS_NewObjectClass example_ctx 64 example_s2
       = (JS_OBJECT 12, example_s2\<lparr>next_ptr := 12,
                                    objects := [(12, example_obj\<lparr>obj_opaque := 0\<rparr>)]\<rparr>)
   \<and> (12::nat) \<noteq> 0
   \<and> (\<exists>b s2. jsNewObjectClass JS_NewObjectClass example_ctx 64 4242 example_s2 = Inr (b, s2)
            \<and> boxes s2 b = Some (JS_OBJECT 12)
            \<and> map_of (objects s2) 12 = Some example_obj)"
proof -
  have h1: "JS_NewObjectClass_nomem example_ctx 64 example_s2 = (JS_EXCEPTION, example_s2)"
    by (simp add: JS_NewObjectClass_nomem_def)
  have h2: "JS_NewObjectClass example_ctx 64 example_s2
       = (JS_OBJECT 12, example_s2\<lparr>next_ptr := 12,
                                    objects := [(12, example_obj\<lparr>obj_opaque := 0\<rparr>)]\<rparr>)"
    by (simp add: JS_NewObjectClass_def Let_def example_s2_fields example_obj_def
          JS_GetRuntime_def example_ctx_def)
  have o: "example_obj\<lparr>obj_opaque := 0, obj_opaque := 4242\<rparr> = example_obj"
    by (simp add: example_obj_def)
  show ?thesis
    using h1 h2 o
      jsNewObjectClass_attach_only_on_success
        [where new_object = JS_NewObjectClass_nomem and ctx = example_ctx and cid = 64
           and s = example_s2 and opaque = 4242, OF h1]
      jsNewObjectClass_attach_only_on_success
        [where new_object = JS_NewObjectClass and ctx = example_ctx and cid = 64
           and s = example_s2 and opaque = 4242, OF h2]
    by simp
qed

text \<open>
  Claim C10: when the engine's \<open>JS_NewClass\<close> returns a negative result, \<open>jsNewClass\<close>
  throws an internal error on the context and returns the identifier 0.
\<close>

theorem jsNewClass_registration_failure:
  assumes "\<not> JS_IsRegisteredClass (JS_GetRuntime ctx) (js_class_id_alloc s) s"
    and "new_class (JS_GetRuntime ctx) (js_class_id_alloc s)
           \<lparr>class_name = name, finalizer = Some Fn_jsNewClass_finalizer\<rparr>
           (s\<lparr>js_class_id_alloc := js_class_id_alloc s + 1\<rparr>) = (e, s2)"
    and "e < 0"
  shows "jsNewClass new_class ctx name s
           = (0, s2\<lparr>engine_log := engine_log s2 @
                     [E_ThrowInternalError ctx (''Cant register class '' @ name)]\<rparr>)"
  using assms
  by (simp add: jsNewClass_def JS_NewClassID_def JS_IsRegisteredClass_def Let_def
        JS_ThrowInternalError_def)

theorem jsNewClass_registration_failure_witness:
  "\<not> JS_IsRegisteredClass (JS_GetRuntime example_ctx) (js_class_id_alloc example_full) example_full
   \<and> JS_NewClass (JS_GetRuntime example_ctx) (js_class_id_alloc example_full) example_def
        (example_full\<lparr>js_class_id_alloc := js_class_id_alloc example_full + 1\<rparr>)
       = (- 1, example_full\<lparr>js_class_id_alloc := 65537\<rparr>)
   \<and> (- 1 :: int) < 0
   \<and> jsNewClass JS_NewClass example_ctx ''JSObject'' example_full
       = (0, example_full\<lparr>js_class_id_alloc := 65537,
                engine_log := engine_log example_full @
                  [E_ThrowInternalError example_ctx ''Cant register class JSObject'']\<rparr>)"
proof -
  have h1: "\<not> JS_IsRegisteredClass (JS_GetRuntime example_ctx)
               (js_class_id_alloc example_full) example_full"
    by (simp add: JS_IsRegisteredClass_def JS_GetRuntime_def example_ctx_def example_full_def
          example_s1_fields)
  have h2: "JS_NewClass (JS_GetRuntime example_ctx) (js_class_id_alloc example_full)
              \<lparr>class_name = ''JSObject'', finalizer = Some Fn_jsNewClass_finalizer\<rparr>
              (example_full\<lparr>js_class_id_alloc := js_class_id_alloc example_full + 1\<rparr>)
            = (- 1, example_full\<lparr>js_class_id_alloc := 65537\<rparr>)"
    by (simp add: JS_NewClass_def example_full_def)
  have h3: "(- 1 :: int) < 0" by simp
  show ?thesis
    using h1 h2 h3 jsNewClass_registration_failure
        [where new_class = JS_NewClass and ctx = example_ctx and s = example_full
           and name = "''JSObject''", OF h1 h2 h3]
    by (simp add: example_def_def)
qed

end
